theory Spec2Isabelle
  imports Complex_Main
begin

section \<open>The house-price inference server\<close>

text \<open>
  The repository is one Flask route, \<^verbatim>\<open>predict\<close> in \<^verbatim>\<open>main.py\<close>, over two helpers in
  \<^verbatim>\<open>utils.py\<close>: \<^verbatim>\<open>load_trained_model_and_scaler\<close> and \<^verbatim>\<open>preprocess_single_house\<close>.
  Everything else is library code (Flask, pandas, scikit-learn, Keras, NumPy). The
  embedding translates the three functions statement by statement. Of the libraries it
  models what the three functions use: the \<^verbatim>\<open>DataFrame\<close> built from a list of dicts,
  column assignment and column selection, element-wise \<^verbatim>\<open>expm1\<close>, indexing and
  \<^verbatim>\<open>round\<close>. The fitted scaler, the trained model and the two files they are loaded from
  are not part of the repository; they are parameters.

  The numbers in the arrays of the scaler and the model are real numbers. What NumPy's
  \<^verbatim>\<open>expm1\<close> returns on Keras's float32 output is a float: a number, an infinity or NaN.
  Its rounding is the library's and is a parameter; the embedding fixes the result only
  where the arithmetic itself does, at zero and on overflow.
\<close>

subsection \<open>Python values, exceptions\<close>

text \<open>What \<^verbatim>\<open>request.json\<close> evaluates to: the Python value of a JSON document.\<close>

datatype jvalue =
    JNull
  | JBool bool
  | JInt int
  | JFloat real
  | JStr string
  | JArr "jvalue list"
  | JObj "(string \<times> jvalue) list"

text \<open>
  A Python dict is an association list in insertion order, read with \<open>map_of\<close>. The
  dict the JSON parser builds has distinct keys.
\<close>

type_synonym dict = "(string \<times> jvalue) list"

text \<open>
  An instance of \<^verbatim>\<open>Exception\<close>: its class name and the text \<^verbatim>\<open>str(e)\<close> gives.
  \<^verbatim>\<open>KeyboardInterrupt\<close>, \<^verbatim>\<open>SystemExit\<close> and \<^verbatim>\<open>GeneratorExit\<close>, which
  \<^verbatim>\<open>except Exception\<close> lets through, are not modelled: none of the calls raises them.
\<close>

datatype py_exception = PyException (exc_type: string) (exc_str: string)

text \<open>A float the handler computes: a number, or one of \<^verbatim>\<open>inf\<close>, \<^verbatim>\<open>-inf\<close> and \<^verbatim>\<open>nan\<close>.\<close>

datatype pyfloat = Finite real | PosInf | NegInf | NaN

subsection \<open>pandas: the frame operations the code uses\<close>

text \<open>
  A column label is a string (a dict key) or a position (the labels pandas gives to a
  frame built from something else than dicts). A cell holds a value or is missing (NaN).
\<close>

datatype label = Name string | Pos nat

type_synonym cell = "jvalue option"

record frame =
  nrows :: nat
  cols :: "(label \<times> cell list) list"

definition columns :: "frame \<Rightarrow> label list" where
  "columns df = map fst (cols df)"

text \<open>The keys of all records, each once, in order of first appearance.\<close>

fun first_seen :: "'a list \<Rightarrow> 'a list \<Rightarrow> 'a list" where
  "first_seen seen [] = []"
| "first_seen seen (k # ks) =
     (if k \<in> set seen then first_seen seen ks else k # first_seen (k # seen) ks)"

text \<open>
  \<^verbatim>\<open>pd.DataFrame(records)\<close> for a list of dicts: one row per record, one column per
  key, a missing cell where a record lacks the key.
\<close>

definition DataFrame :: "dict list \<Rightarrow> frame" where
  "DataFrame records =
     \<lparr>nrows = length records,
      cols = map (\<lambda>k. (Name k, map (\<lambda>r. map_of r k) records))
                 (first_seen [] (concat (map (map fst) records)))\<rparr>"

text \<open>
  \<^verbatim>\<open>df[l] = v\<close> for a scalar \<open>v\<close>: the column \<open>l\<close> becomes \<open>v\<close> in every row; a new label
  is appended as the last column.
\<close>

definition frame_setitem :: "frame \<Rightarrow> label \<Rightarrow> jvalue \<Rightarrow> frame" where
  "frame_setitem df l v =
     (let c = replicate (nrows df) (Some v)
      in if l \<in> set (columns df)
         then df\<lparr>cols := map (\<lambda>(k, old). if k = l then (k, c) else (k, old)) (cols df)\<rparr>
         else df\<lparr>cols := cols df @ [(l, c)]\<rparr>)"

text \<open>
  \<^verbatim>\<open>df[ls]\<close> for a list of labels: a new frame with the columns named by \<open>ls\<close>, in the
  order of \<open>ls\<close>; \<^verbatim>\<open>KeyError\<close> when a label is not a column of \<open>df\<close>.
\<close>

fun show_nat :: "nat \<Rightarrow> string" where
  "show_nat n =
     (if n < 10 then [char_of (48 + n)]
      else show_nat (n div 10) @ [char_of (48 + n mod 10)])"

fun show_label :: "label \<Rightarrow> string" where
  "show_label (Name s) = [CHR 0x27] @ s @ [CHR 0x27]"
| "show_label (Pos n) = show_nat n"

text \<open>The columns of \<open>df\<close> that carry the label \<open>l\<close>.\<close>

definition selected :: "frame \<Rightarrow> label \<Rightarrow> (label \<times> cell list) list" where
  "selected df l = filter (\<lambda>(k, c). k = l) (cols df)"

definition frame_getitem :: "frame \<Rightarrow> label list \<Rightarrow> py_exception + frame" where
  "frame_getitem df ls =
     (let absent = filter (\<lambda>l. l \<notin> set (columns df)) ls
      in if absent \<noteq> []
         then Inl (PyException ''KeyError''
                     (concat (map show_label absent) @ '' not in index''))
         else Inr (df\<lparr>cols := concat (map (selected df) ls)\<rparr>))"

subsection \<open>The interpreter's state\<close>

text \<open>
  The objects a call can reach and change: the values the JSON parser built and the
  \<^verbatim>\<open>DataFrame\<close> objects, each addressed by its position. A variable holds an address.
\<close>

record heap =
  pyvalues :: "jvalue list"
  dataframes :: "frame list"

text \<open>
  What differs from run to run and from library to library:
  \<^item> \<open>set_order\<close>: the order in which a \<^verbatim>\<open>for\<close> loop visits a Python \<^verbatim>\<open>set\<close>; it
    depends on the hash seed of the process. The set is given by its elements in some
    order, and the function rearranges them.
  \<^item> \<open>DataFrame_other\<close>: the frame \<^verbatim>\<open>pd.DataFrame([v])\<close> builds, or the exception it
    raises, when \<open>v\<close> is not a dict.
\<close>

record runtime =
  set_order :: "string list \<Rightarrow> string list"
  DataFrame_other :: "jvalue \<Rightarrow> py_exception + frame"

type_synonym ndarray = "real list list"

text \<open>The fitted scaler: its \<^verbatim>\<open>feature_names_in_\<close> and its \<^verbatim>\<open>transform\<close>.\<close>

record sk_scaler =
  feature_names_in :: "string list"
  transform :: "frame \<Rightarrow> py_exception + ndarray"

text \<open>The trained model, as its \<^verbatim>\<open>predict\<close> method.\<close>

type_synonym keras_model = "ndarray \<Rightarrow> py_exception + ndarray"

text \<open>
  NumPy, as far as \<^verbatim>\<open>main.py\<close> uses it: the float32 that \<^verbatim>\<open>expm1\<close> returns for an
  argument other than zero whose result does not overflow. It is \<open>exp y - 1\<close> up to the
  rounding of the library.
\<close>

record numpy =
  float32_expm1 :: "real \<Rightarrow> pyfloat"

subsection \<open>utils.py\<close>

text \<open>
  The two artifacts on disk, as what \<^verbatim>\<open>load_model\<close> and \<^verbatim>\<open>joblib.load\<close> return for a
  file name.
\<close>

record artifacts =
  load_model :: "string \<Rightarrow> py_exception + keras_model"
  joblib_load :: "string \<Rightarrow> py_exception + sk_scaler"

text \<open>
  \<^verbatim>\<open>load_trained_model_and_scaler\<close>. The second argument and the second component of the
  result are the log of the files loaded so far, kept to count the loads.
\<close>

definition load_trained_model_and_scaler ::
  "artifacts \<Rightarrow> string list \<Rightarrow> (py_exception + keras_model \<times> sk_scaler) \<times> string list" where
  "load_trained_model_and_scaler fs loaded =
     (let loaded1 = loaded @ [''house_price_model.keras'']
      in case load_model fs ''house_price_model.keras'' of
           Inl e \<Rightarrow> (Inl e, loaded1)
         | Inr model \<Rightarrow>
             (let loaded2 = loaded1 @ [''scaler.save'']
              in case joblib_load fs ''scaler.save'' of
                   Inl e \<Rightarrow> (Inl e, loaded2)
                 | Inr scaler \<Rightarrow> (Inr (model, scaler), loaded2)))"

text \<open>
  The frame \<^verbatim>\<open>pd.DataFrame([v])\<close> builds: from the one record when \<open>v\<close> is a dict,
  what the library does otherwise.
\<close>

definition frame_of_value :: "runtime \<Rightarrow> jvalue \<Rightarrow> py_exception + frame" where
  "frame_of_value rt v =
     (case v of
        JObj kvs \<Rightarrow> Inr (DataFrame [kvs])
      | _ \<Rightarrow> DataFrame_other rt v)"

text \<open>\<^verbatim>\<open>house_df = pd.DataFrame([house_data])\<close>: a new frame object.\<close>

definition new_DataFrame :: "runtime \<Rightarrow> heap \<Rightarrow> nat \<Rightarrow> (py_exception + nat) \<times> heap" where
  "new_DataFrame rt h house_data =
     (case frame_of_value rt (pyvalues h ! house_data) of
        Inl e \<Rightarrow> (Inl e, h)
      | Inr df \<Rightarrow> (Inr (length (dataframes h)), h\<lparr>dataframes := dataframes h @ [df]\<rparr>))"

text \<open>\<^verbatim>\<open>house_df[feature] = 0\<close>: the frame object at \<open>house_df\<close> is changed in place.\<close>

definition setitem :: "heap \<Rightarrow> nat \<Rightarrow> label \<Rightarrow> jvalue \<Rightarrow> heap" where
  "setitem h house_df l v =
     h\<lparr>dataframes := (dataframes h)[house_df := frame_setitem (dataframes h ! house_df) l v]\<rparr>"

text \<open>\<^verbatim>\<open>house_df[scaler.feature_names_in_]\<close>: a new frame object, or \<^verbatim>\<open>KeyError\<close>.\<close>

definition getitem :: "heap \<Rightarrow> nat \<Rightarrow> label list \<Rightarrow> (py_exception + nat) \<times> heap" where
  "getitem h house_df ls =
     (case frame_getitem (dataframes h ! house_df) ls of
        Inl e \<Rightarrow> (Inl e, h)
      | Inr df \<Rightarrow> (Inr (length (dataframes h)), h\<lparr>dataframes := dataframes h @ [df]\<rparr>))"

text \<open>
  \<^verbatim>\<open>set(scaler.feature_names_in_) - set(house_df.columns)\<close>, visited in the order the
  runtime gives.
\<close>

definition missing_features :: "runtime \<Rightarrow> string list \<Rightarrow> frame \<Rightarrow> string list" where
  "missing_features rt names df =
     set_order rt (filter (\<lambda>f. Name f \<notin> set (columns df)) (remdups names))"

text \<open>
  The loop \<^verbatim>\<open>for feature in missing_features: house_df[feature] = 0\<close>, on the frame
  itself rather than on the heap that holds it.
\<close>

definition zero_filled :: "runtime \<Rightarrow> string list \<Rightarrow> frame \<Rightarrow> frame" where
  "zero_filled rt names df =
     fold (\<lambda>feature d. frame_setitem d (Name feature) (JInt 0)) (missing_features rt names df) df"

text \<open>
  \<^verbatim>\<open>preprocess_single_house(house_data, scaler)\<close>: \<open>house_data\<close> is the address of the
  argument; the result is the value returned or the exception raised, and the heap after
  the call.
\<close>

definition preprocess_single_house ::
  "runtime \<Rightarrow> heap \<Rightarrow> nat \<Rightarrow> sk_scaler \<Rightarrow> (py_exception + ndarray) \<times> heap" where
  "preprocess_single_house rt h house_data scaler =
     (case new_DataFrame rt h house_data of
        (Inl e, h1) \<Rightarrow> (Inl e, h1)
      | (Inr house_df, h1) \<Rightarrow>
          (let missing = missing_features rt (feature_names_in scaler) (dataframes h1 ! house_df);
               h2 = fold (\<lambda>feature hp. setitem hp house_df (Name feature) (JInt 0)) missing h1
           in case getitem h2 house_df (map Name (feature_names_in scaler)) of
                (Inl e, h3) \<Rightarrow> (Inl e, h3)
              | (Inr house_df', h3) \<Rightarrow> (transform scaler (dataframes h3 ! house_df'), h3)))"

text \<open>
  The row the specification describes: one column per expected feature, in the order of
  \<^verbatim>\<open>feature_names_in_\<close>, holding the value the record gives for the feature and zero
  when the record has none; the record's other fields do not appear.
\<close>

definition aligned_row :: "string list \<Rightarrow> dict \<Rightarrow> frame" where
  "aligned_row names house_data =
     \<lparr>nrows = 1,
      cols = map (\<lambda>f. (Name f, [Some (case map_of house_data f of
                                         Some v \<Rightarrow> v
                                       | None \<Rightarrow> JInt 0)]))
                 names\<rparr>"

subsection \<open>main.py\<close>

text \<open>
  \<^verbatim>\<open>expm1\<close> on one float32: zero at zero, \<^verbatim>\<open>inf\<close> when \<open>exp y - 1\<close> is beyond the
  range of float32, and the library's rounded value otherwise.
\<close>

definition expm1_f32 :: "numpy \<Rightarrow> real \<Rightarrow> pyfloat" where
  "expm1_f32 np y =
     (if y = 0 then Finite 0
      else if 2 ^ 128 \<le> exp y - 1 then PosInf
      else float32_expm1 np y)"

text \<open>\<^verbatim>\<open>np.expm1\<close>, element by element.\<close>

definition np_expm1 :: "numpy \<Rightarrow> ndarray \<Rightarrow> pyfloat list list" where
  "np_expm1 np a = map (map (expm1_f32 np)) a"

text \<open>\<^verbatim>\<open>a[0]\<close> on an array: \<^verbatim>\<open>IndexError\<close> when the axis is empty.\<close>

definition item0 :: "'a list \<Rightarrow> py_exception + 'a" where
  "item0 a =
     (case a of
        [] \<Rightarrow> Inl (PyException ''IndexError''
                     ''index 0 is out of bounds for axis 0 with size 0'')
      | x # rest \<Rightarrow> Inr x)"

text \<open>\<^verbatim>\<open>round(x, 2)\<close>: to the nearest multiple of 0.01, a tie to the even one.\<close>

definition py_round2 :: "real \<Rightarrow> real" where
  "py_round2 x =
     (let s = x * 100; n = \<lfloor>s\<rfloor>; d = s - of_int n
      in of_int (if d < 1 / 2 then n
                 else if 1 / 2 < d then n + 1
                 else if even n then n else n + 1) / 100)"

text \<open>
  \<^verbatim>\<open>round(float(x), 2)\<close>: the conversion of a float32 to a Python float is exact, and
  \<^verbatim>\<open>round\<close> leaves an infinity and NaN as they are.
\<close>

fun py_round :: "pyfloat \<Rightarrow> pyfloat" where
  "py_round (Finite x) = Finite (py_round2 x)"
| "py_round PosInf = PosInf"
| "py_round NegInf = NegInf"
| "py_round NaN = NaN"

text \<open>The comparison \<^verbatim>\<open>x > c\<close> of a float with a number.\<close>

fun exceeds :: "pyfloat \<Rightarrow> real \<Rightarrow> bool" where
  "exceeds (Finite x) c = (c < x)"
| "exceeds PosInf c = True"
| "exceeds NegInf c = False"
| "exceeds NaN c = False"

datatype body = Price pyfloat | Error string

record response =
  status :: nat
  body :: body

text \<open>
  A call of the handler returns a response, or an exception leaves it and the framework
  answers in its place.
\<close>

datatype outcome = Returns response | Raises py_exception

text \<open>
  The module's globals \<^verbatim>\<open>model\<close> and \<^verbatim>\<open>scaler\<close>, and the log of the files loaded.
\<close>

record server =
  model :: keras_model
  scaler :: sk_scaler
  loaded :: "string list"

text \<open>
  The module body, run once when the process starts:
  \<^verbatim>\<open>model, scaler = load_trained_model_and_scaler()\<close>. An exception here ends the process
  before it serves a request.
\<close>

definition startup :: "artifacts \<Rightarrow> py_exception + server" where
  "startup fs =
     (case load_trained_model_and_scaler fs [] of
        (Inl e, files) \<Rightarrow> Inl e
      | (Inr (m, sc), files) \<Rightarrow> Inr \<lparr>model = m, scaler = sc, loaded = files\<rparr>)"

text \<open>The body of the \<^verbatim>\<open>try\<close> block: the response returned, or the exception raised.\<close>

definition try_body ::
  "runtime \<Rightarrow> numpy \<Rightarrow> server \<Rightarrow> jvalue \<Rightarrow> py_exception + response" where
  "try_body rt np srv data =
     (case fst (preprocess_single_house rt \<lparr>pyvalues = [data], dataframes = []\<rparr> 0 (scaler srv)) of
        Inl e \<Rightarrow> Inl e
      | Inr house_data_scaled \<Rightarrow>
          (case model srv house_data_scaled of
             Inl e \<Rightarrow> Inl e
           | Inr predicted_log_price \<Rightarrow>
               (let predicted_price = np_expm1 np predicted_log_price
                in case item0 predicted_price of
                     Inl e \<Rightarrow> Inl e
                   | Inr row \<Rightarrow>
                       (case item0 row of
                          Inl e \<Rightarrow> Inl e
                        | Inr p \<Rightarrow> Inr \<lparr>status = 200, body = Price (py_round p)\<rparr>))))"

text \<open>
  \<^verbatim>\<open>predict()\<close>. The request is given by what \<^verbatim>\<open>request.json\<close> evaluates to: the parsed
  value, or the exception Flask raises (\<^verbatim>\<open>BadRequest\<close> for a body that is not JSON).
  \<^verbatim>\<open>data = request.json\<close> stands before the \<^verbatim>\<open>try\<close>. The second component is the
  module's globals after the call.
\<close>

definition predict ::
  "runtime \<Rightarrow> numpy \<Rightarrow> server \<Rightarrow> py_exception + jvalue \<Rightarrow> outcome \<times> server" where
  "predict rt np srv request_json =
     (case request_json of
        Inl e \<Rightarrow> (Raises e, srv)
      | Inr data \<Rightarrow>
          (case try_body rt np srv data of
             Inr r \<Rightarrow> (Returns r, srv)
           | Inl e \<Rightarrow> (Returns \<lparr>status = 400, body = Error (exc_str e)\<rparr>, srv)))"

text \<open>The requests of a process, one after the other.\<close>

fun serve ::
  "runtime \<Rightarrow> numpy \<Rightarrow> server \<Rightarrow> (py_exception + jvalue) list \<Rightarrow> outcome list \<times> server" where
  "serve rt np srv [] = ([], srv)"
| "serve rt np srv (r # rs) =
     (case predict rt np srv r of
        (out, srv1) \<Rightarrow> (case serve rt np srv1 rs of (outs, srv2) \<Rightarrow> (out # outs, srv2)))"

subsection \<open>A small deployment\<close>

text \<open>
  A runtime that visits a set in reverse order; a scaler fitted on the features
  \<open>area\<close> and \<open>rooms\<close> that divides each by 100 and rejects a cell that is not a number;
  a linear model without bias; the files that hold them; a NumPy whose \<^verbatim>\<open>expm1\<close> does
  not round.
\<close>

definition example_numpy :: numpy where
  "example_numpy = \<lparr>float32_expm1 = (\<lambda>y. Finite (exp y - 1))\<rparr>"

definition example_runtime :: runtime where
  "example_runtime =
     \<lparr>set_order = rev,
      DataFrame_other = (\<lambda>v. Inr \<lparr>nrows = 1, cols = [(Pos 0, [Some v])]\<rparr>)\<rparr>"

fun to_float :: "cell list \<Rightarrow> real option" where
  "to_float [Some (JInt n)] = Some (of_int n / 100)"
| "to_float [Some (JFloat x)] = Some (x / 100)"
| "to_float c = None"

definition example_scaler :: sk_scaler where
  "example_scaler =
     \<lparr>feature_names_in = [''area'', ''rooms''],
      transform = (\<lambda>df. let vs = map (\<lambda>(l, c). to_float c) (cols df)
                        in if None \<in> set vs
                           then Inl (PyException ''ValueError''
                                       ''could not convert string to float'')
                           else Inr [map the vs])\<rparr>"

definition example_model :: keras_model where
  "example_model x =
     (case x of
        [[a, r]] \<Rightarrow> Inr [[a + r]]
      | _ \<Rightarrow> Inl (PyException ''ValueError'' ''incompatible input shape''))"


definition example_artifacts :: artifacts where
  "example_artifacts =
     \<lparr>load_model = (\<lambda>f. if f = ''house_price_model.keras'' then Inr example_model
                         else Inl (PyException ''OSError'' ''No file or directory found'')),
      joblib_load = (\<lambda>f. if f = ''scaler.save'' then Inr example_scaler
                          else Inl (PyException ''FileNotFoundError'' ''No such file or directory''))\<rparr>"

definition example_server :: server where
  "example_server =
     \<lparr>model = example_model, scaler = example_scaler,
      loaded = [''house_price_model.keras'', ''scaler.save'']\<rparr>"

section \<open>Properties\<close>

subsection \<open>Frames\<close>

lemma set_first_seen: "set (first_seen seen ks) = set ks - set seen"
  by (induction seen ks rule: first_seen.induct) auto

lemma distinct_first_seen: "distinct (first_seen seen ks)"
  by (induction seen ks rule: first_seen.induct) (auto simp: set_first_seen)

lemma nrows_DataFrame1: "nrows (DataFrame [kvs]) = 1"
  by (simp add: DataFrame_def)

lemma columns_DataFrame1: "columns (DataFrame [kvs]) = map Name (first_seen [] (map fst kvs))"
  by (simp add: DataFrame_def columns_def comp_def)

lemma distinct_columns_DataFrame1: "distinct (columns (DataFrame [kvs]))"
  by (simp add: columns_DataFrame1 distinct_map distinct_first_seen inj_on_def)

lemma map_of_keyed:
  "inj g \<Longrightarrow> map_of (map (\<lambda>k. (g k, f k)) ks) (g k) = (if k \<in> set ks then Some (f k) else None)"
  by (induction ks) (auto simp: inj_def)

lemma map_of_DataFrame1:
  "map_of (cols (DataFrame [kvs])) (Name k) =
     (if k \<in> fst ` set kvs then Some [map_of kvs k] else None)"
proof -
  have "inj Name" by (simp add: inj_def)
  from map_of_keyed [OF this, of "\<lambda>k. [map_of kvs k]" "first_seen [] (map fst kvs)" k]
  show ?thesis by (simp add: DataFrame_def set_first_seen)
qed

lemma nrows_frame_setitem: "nrows (frame_setitem df l v) = nrows df"
  by (simp add: frame_setitem_def Let_def)

lemma columns_replace:
  "map fst (map (\<lambda>(k, old). if k = l then (k, c) else (k, old)) xs) = map fst xs"
  by (induction xs) (simp_all add: case_prod_beta)

lemma columns_frame_setitem:
  "columns (frame_setitem df l v) =
     (if l \<in> set (columns df) then columns df else columns df @ [l])"
  unfolding frame_setitem_def Let_def columns_def
  by (simp add: columns_replace del: map_map)

lemma map_of_replace:
  "map_of (map (\<lambda>(k, old). if k = l then (k, c) else (k, old)) xs) k =
     (if k = l \<and> l \<in> fst ` set xs then Some c else map_of xs k)"
  by (induction xs) (force simp: case_prod_beta)+

lemma map_of_append_new:
  "l \<notin> fst ` set xs \<Longrightarrow>
   map_of (xs @ [(l, c)]) k = (if k = l then Some c else map_of xs k)"
  by (induction xs) auto

lemma map_of_frame_setitem:
  "map_of (cols (frame_setitem df l v)) k =
     (if k = l then Some (replicate (nrows df) (Some v)) else map_of (cols df) k)"
proof (cases "l \<in> set (columns df)")
  case True
  then show ?thesis
    by (simp add: frame_setitem_def Let_def map_of_replace columns_def)
next
  case False
  then show ?thesis
    by (simp add: frame_setitem_def Let_def map_of_append_new columns_def del: map_of_append)
qed

lemma nrows_fold_setitem:
  "nrows (fold (\<lambda>f d. frame_setitem d (Name f) v) ms df) = nrows df"
  by (induction ms arbitrary: df) (simp_all add: nrows_frame_setitem)

lemma distinct_columns_setitem:
  "distinct (columns df) \<Longrightarrow> distinct (columns (frame_setitem df l v))"
  by (simp add: columns_frame_setitem)

lemma distinct_columns_fold_setitem:
  "distinct (columns df) \<Longrightarrow>
   distinct (columns (fold (\<lambda>f d. frame_setitem d (Name f) v) ms df))"
  by (induction ms arbitrary: df) (simp_all add: distinct_columns_setitem)

lemma set_columns_fold_setitem:
  "set (columns (fold (\<lambda>f d. frame_setitem d (Name f) v) ms df)) =
     set (columns df) \<union> Name ` set ms"
  by (induction ms arbitrary: df) (auto simp: columns_frame_setitem)

lemma map_of_fold_setitem:
  "map_of (cols (fold (\<lambda>f d. frame_setitem d (Name f) v) ms df)) k =
     (if k \<in> Name ` set ms then Some (replicate (nrows df) (Some v)) else map_of (cols df) k)"
  by (induction ms arbitrary: df) (auto simp: map_of_frame_setitem nrows_frame_setitem)

lemma fold_setitem_heap:
  "a < length (dataframes h) \<Longrightarrow>
   fold (\<lambda>f hp. setitem hp a (Name f) v) ms h =
     h\<lparr>dataframes :=
         (dataframes h)[a := fold (\<lambda>f d. frame_setitem d (Name f) v) ms (dataframes h ! a)]\<rparr>"
  by (induction ms arbitrary: h) (simp_all add: setitem_def)

lemma filter_key_distinct:
  "distinct (map fst xs) \<Longrightarrow> map_of xs l = Some c \<Longrightarrow>
   filter (\<lambda>(k, c). k = l) xs = [(l, c)]"
proof (induction xs)
  case Nil
  then show ?case by simp
next
  case (Cons x xs)
  show ?case
  proof (cases "fst x = l")
    case True
    with Cons.prems have "l \<notin> fst ` set xs" and "snd x = c" by auto
    then have "filter (\<lambda>(k, c). k = l) xs = []"
      by (force simp: filter_empty_conv)
    with True \<open>snd x = c\<close> show ?thesis by (cases x) simp
  next
    case False
    with Cons show ?thesis by (cases x) simp
  qed
qed

lemma concat_filter_keys:
  "distinct (map fst xs) \<Longrightarrow> set ls \<subseteq> fst ` set xs \<Longrightarrow>
   concat (map (\<lambda>l. filter (\<lambda>(k, c). k = l) xs) ls) = map (\<lambda>l. (l, the (map_of xs l))) ls"
proof (induction ls)
  case Nil
  then show ?case by simp
next
  case (Cons l ls)
  from Cons.prems obtain c where "map_of xs l = Some c"
    by (cases "map_of xs l") (auto simp: map_of_eq_None_iff)
  with Cons show ?case by (simp add: filter_key_distinct)
qed

lemma selected_fun: "selected df = (\<lambda>l. filter (\<lambda>(k, c). k = l) (cols df))"
  by (rule ext) (simp add: selected_def)

lemma frame_getitem_present:
  "distinct (columns df) \<Longrightarrow> set ls \<subseteq> set (columns df) \<Longrightarrow>
   frame_getitem df ls = Inr (df\<lparr>cols := map (\<lambda>l. (l, the (map_of (cols df) l))) ls\<rparr>)"
proof -
  assume d: "distinct (columns df)" and s: "set ls \<subseteq> set (columns df)"
  from s have "filter (\<lambda>l. l \<notin> set (columns df)) ls = []"
    by (auto simp: filter_empty_conv)
  moreover from d s have "concat (map (selected df) ls) =
      map (\<lambda>l. (l, the (map_of (cols df) l))) ls"
    unfolding selected_fun by (intro concat_filter_keys) (simp_all add: columns_def)
  ultimately show ?thesis by (simp add: frame_getitem_def)
qed

subsection \<open>Preprocessing\<close>

lemma set_missing_features:
  "(\<And>xs. set (set_order rt xs) = set xs) \<Longrightarrow>
   set (missing_features rt names df) = {f \<in> set names. Name f \<notin> set (columns df)}"
  by (auto simp: missing_features_def)

lemma getitem_zero_filled:
  assumes perm: "\<And>xs. set (set_order rt xs) = set xs"
  shows "frame_getitem (zero_filled rt names (DataFrame [kvs])) (map Name names) =
           Inr (aligned_row names kvs)"
proof -
  let ?df = "DataFrame [kvs]"
  let ?fd = "zero_filled rt names ?df"
  have d: "distinct (columns ?fd)"
    unfolding zero_filled_def
    by (rule distinct_columns_fold_setitem) (rule distinct_columns_DataFrame1)
  have s: "set (map Name names) \<subseteq> set (columns ?fd)"
    unfolding zero_filled_def
    by (auto simp: set_columns_fold_setitem set_missing_features [OF perm])
  have n: "nrows ?fd = 1"
    by (simp add: zero_filled_def nrows_fold_setitem nrows_DataFrame1)
  have v: "the (map_of (cols ?fd) (Name f)) =
             [Some (case map_of kvs f of Some v \<Rightarrow> v | None \<Rightarrow> JInt 0)]"
    if "f \<in> set names" for f
  proof (cases "f \<in> fst ` set kvs")
    case True
    then have "Name f \<in> set (columns ?df)"
      by (simp add: columns_DataFrame1 set_first_seen)
    then have "Name f \<notin> Name ` set (missing_features rt names ?df)"
      by (auto simp: set_missing_features [OF perm])
    moreover from True obtain w where "map_of kvs f = Some w"
      by (cases "map_of kvs f") (auto simp: map_of_eq_None_iff)
    ultimately show ?thesis
      using True by (simp add: zero_filled_def map_of_fold_setitem map_of_DataFrame1)
  next
    case False
    then have "Name f \<notin> set (columns ?df)"
      by (auto simp: columns_DataFrame1 set_first_seen)
    with that have "Name f \<in> Name ` set (missing_features rt names ?df)"
      by (auto simp: set_missing_features [OF perm])
    moreover from False have "map_of kvs f = None"
      by (simp add: map_of_eq_None_iff)
    ultimately show ?thesis
      by (simp add: zero_filled_def map_of_fold_setitem nrows_DataFrame1)
  qed
  have "map (\<lambda>l. (l, the (map_of (cols ?fd) l))) (map Name names) = cols (aligned_row names kvs)"
    by (simp add: aligned_row_def v comp_def)
  with frame_getitem_present [OF d s] n show ?thesis
    by (simp add: aligned_row_def)
qed

text \<open>The call, when the frame is built: the heap it leaves and the value it returns.\<close>

lemma preprocess_built:
  assumes fv: "frame_of_value rt (pyvalues h ! a) = Inr df"
  shows "preprocess_single_house rt h a sc =
     (case frame_getitem (zero_filled rt (feature_names_in sc) df) (map Name (feature_names_in sc)) of
        Inl e \<Rightarrow> (Inl e, h\<lparr>dataframes := dataframes h @ [zero_filled rt (feature_names_in sc) df]\<rparr>)
      | Inr df' \<Rightarrow> (transform sc df',
           h\<lparr>dataframes := dataframes h @ [zero_filled rt (feature_names_in sc) df, df']\<rparr>))"
proof -
  let ?n = "length (dataframes h)"
  let ?h1 = "h\<lparr>dataframes := dataframes h @ [df]\<rparr>"
  have nd: "new_DataFrame rt h a = (Inr ?n, ?h1)"
    by (simp add: new_DataFrame_def fv)
  have lt: "?n < length (dataframes ?h1)" by simp
  let ?h2 = "fold (\<lambda>feature hp. setitem hp ?n (Name feature) (JInt 0))
               (missing_features rt (feature_names_in sc) df) ?h1"
  have h2: "?h2 = h\<lparr>dataframes := dataframes h @ [zero_filled rt (feature_names_in sc) df]\<rparr>"
    by (simp add: fold_setitem_heap [OF lt] zero_filled_def)
  show ?thesis
    unfolding preprocess_single_house_def nd
    by (simp add: Let_def h2 getitem_def nth_append split: sum.splits)
qed

lemma preprocess_not_built:
  "frame_of_value rt (pyvalues h ! a) = Inl e \<Longrightarrow>
   preprocess_single_house rt h a sc = (Inl e, h)"
  by (simp add: preprocess_single_house_def new_DataFrame_def)

lemma preprocess_dict:
  assumes perm: "\<And>xs. set (set_order rt xs) = set xs"
    and obj: "pyvalues h ! a = JObj kvs"
  shows "preprocess_single_house rt h a sc =
     (transform sc (aligned_row (feature_names_in sc) kvs),
      h\<lparr>dataframes := dataframes h @
          [zero_filled rt (feature_names_in sc) (DataFrame [kvs]),
           aligned_row (feature_names_in sc) kvs]\<rparr>)"
proof -
  have "frame_of_value rt (pyvalues h ! a) = Inr (DataFrame [kvs])"
    by (simp add: frame_of_value_def obj)
  from preprocess_built [OF this] show ?thesis
    by (simp add: getitem_zero_filled [OF perm])
qed

subsection \<open>The order of the loop, rounding\<close>

lemma selected_empty_iff: "selected df l = [] \<longleftrightarrow> l \<notin> set (columns df)"
  by (force simp: selected_def columns_def filter_empty_conv)

lemma filter_replace:
  "filter (\<lambda>(k, c). k = l) (map (\<lambda>(k, old). if k = m then (k, z) else (k, old)) xs) =
     (if l = m then map (\<lambda>(k, c). (k, z)) (filter (\<lambda>(k, c). k = l) xs)
      else filter (\<lambda>(k, c). k = l) xs)"
  by (induction xs) (auto simp: split_def)

lemma selected_frame_setitem:
  "selected (frame_setitem df m v) l =
     (if l = m
      then (if selected df l = [] then [(l, replicate (nrows df) (Some v))]
            else map (\<lambda>(k, c). (k, replicate (nrows df) (Some v))) (selected df l))
      else selected df l)"
proof (cases "m \<in> set (columns df)")
  case True
  then show ?thesis
    by (auto simp: selected_empty_iff) (simp_all add: selected_def frame_setitem_def filter_replace)
next
  case False
  then have "filter (\<lambda>(k, c). k = m) (cols df) = []"
    using selected_empty_iff [of df m] by (simp add: selected_def)
  with False show ?thesis
    by (auto simp: selected_empty_iff) (simp_all add: selected_def frame_setitem_def)
qed

lemma selected_fold_setitem:
  "selected (fold (\<lambda>f d. frame_setitem d (Name f) v) ms df) l =
     (if l \<in> Name ` set ms
      then (if selected df l = [] then [(l, replicate (nrows df) (Some v))]
            else map (\<lambda>(k, c). (k, replicate (nrows df) (Some v))) (selected df l))
      else selected df l)"
proof (induction ms arbitrary: df)
  case Nil
  then show ?case by simp
next
  case (Cons m ms)
  show ?case
    by (simp add: Cons.IH selected_frame_setitem nrows_frame_setitem case_prod_beta comp_def)
qed

lemma frame_cols_update_cong:
  "nrows a = nrows b \<Longrightarrow> a\<lparr>cols := c\<rparr> = (b::frame)\<lparr>cols := c\<rparr>"
  by (cases a, cases b) simp

lemma frame_getitem_fold_order:
  assumes "set ms = set ms'"
  shows "frame_getitem (fold (\<lambda>f d. frame_setitem d (Name f) v) ms df) ls =
         frame_getitem (fold (\<lambda>f d. frame_setitem d (Name f) v) ms' df) ls"
proof -
  let ?a = "fold (\<lambda>f d. frame_setitem d (Name f) v) ms df"
  let ?b = "fold (\<lambda>f d. frame_setitem d (Name f) v) ms' df"
  have c: "set (columns ?a) = set (columns ?b)"
    by (simp add: set_columns_fold_setitem assms)
  have s: "selected ?a = selected ?b"
    by (rule ext) (simp add: selected_fold_setitem assms)
  have n: "nrows ?a = nrows ?b"
    by (simp add: nrows_fold_setitem)
  show ?thesis
    unfolding frame_getitem_def c s Let_def
    by (simp add: frame_cols_update_cong [OF n])
qed

lemma py_round2_positive: "0 < py_round2 x \<longleftrightarrow> 1 / 200 < x"
proof -
  define s where "s = x * 100"
  define n where "n = \<lfloor>s\<rfloor>"
  define d where "d = s - of_int n"
  have d0: "0 \<le> d" and d1: "d < 1"
    unfolding d_def n_def by linarith+
  have sx: "1 / 200 < x \<longleftrightarrow> 1 / 2 < s" unfolding s_def by linarith
  have r: "py_round2 x = of_int (if d < 1 / 2 then n
                 else if 1 / 2 < d then n + 1
                 else if even n then n else n + 1) / 100"
    by (simp add: py_round2_def Let_def s_def n_def d_def)
  have sn: "s = of_int n + d" by (simp add: d_def)
  consider "n \<le> - 1" | "n = 0" | "1 \<le> n" by linarith
  then show ?thesis
  proof cases
    case 1
    then have "of_int n \<le> (- 1 :: real)" by linarith
    with 1 d1 sn have "\<not> 1 / 2 < s" by linarith
    moreover from 1 have "\<not> 0 < py_round2 x"
      unfolding r by (auto simp: zero_less_divide_iff)
    ultimately show ?thesis unfolding sx by blast
  next
    case 2
    then show ?thesis
      unfolding sx r sn using d0 d1 by (auto simp: zero_less_divide_iff)
  next
    case 3
    then have "(1 :: real) \<le> of_int n" by linarith
    with d0 sn have "1 / 2 < s" by linarith
    moreover from 3 have "0 < py_round2 x"
      unfolding r by (auto simp: zero_less_divide_iff)
    ultimately show ?thesis unfolding sx by blast
  qed
qed

lemma py_round_exceeds: "exceeds (py_round e) 0 \<longleftrightarrow> exceeds e (1 / 200)"
  by (cases e) (simp_all add: py_round2_positive)

lemma expm1_f32_zero: "expm1_f32 np 0 = Finite 0"
  by (simp add: expm1_f32_def)


lemma expm1_f32_in_range:
  assumes "y \<noteq> 0" and "y \<le> 80"
  shows "expm1_f32 np y = float32_expm1 np y"
proof -
  from assms have "exp y \<le> exp 80" by simp
  also have "exp (80::real) = exp 1 ^ 80"
    using exp_of_nat_mult [of 80 "1::real"] by simp
  also have "exp (1::real) ^ 80 \<le> 3 ^ 80"
    by (intro power_mono exp_le) simp
  finally have "exp y - 1 < 2 ^ 128" by simp
  with assms show ?thesis by (simp add: expm1_f32_def)
qed

subsection \<open>The endpoint\<close>

lemma example_perm: "set (set_order example_runtime xs) = set xs"
  by (simp add: example_runtime_def)

lemma try_body_success:
  assumes "fst (preprocess_single_house rt \<lparr>pyvalues = [data], dataframes = []\<rparr> 0 (scaler srv)) = Inr x"
    and "model srv x = Inr ((y # r) # rs)"
  shows "try_body rt np srv data =
           Inr \<lparr>status = 200, body = Price (py_round (expm1_f32 np y))\<rparr>"
  using assms by (simp add: try_body_def np_expm1_def item0_def)

lemma try_body_preprocess_raises:
  "fst (preprocess_single_house rt \<lparr>pyvalues = [data], dataframes = []\<rparr> 0 (scaler srv)) = Inl e \<Longrightarrow>
   try_body rt np srv data = Inl e"
  by (simp add: try_body_def)

lemma try_body_model_raises:
  "fst (preprocess_single_house rt \<lparr>pyvalues = [data], dataframes = []\<rparr> 0 (scaler srv)) = Inr x \<Longrightarrow>
   model srv x = Inl e \<Longrightarrow> try_body rt np srv data = Inl e"
  by (simp add: try_body_def)

lemma try_body_index_raises:
  "fst (preprocess_single_house rt \<lparr>pyvalues = [data], dataframes = []\<rparr> 0 (scaler srv)) = Inr x \<Longrightarrow>
   model srv x = Inr ys \<Longrightarrow> ys = [] \<or> hd ys = [] \<Longrightarrow>
   try_body rt np srv data =
     Inl (PyException ''IndexError'' ''index 0 is out of bounds for axis 0 with size 0'')"
  by (cases ys) (auto simp: try_body_def np_expm1_def item0_def)

lemma try_body_cases:
  "(\<exists>p. try_body rt np srv data = Inr \<lparr>status = 200, body = Price p\<rparr>) \<or>
   (\<exists>e. try_body rt np srv data = Inl e)"
  by (auto simp: try_body_def item0_def split: sum.splits list.splits)

lemma predict_keeps_server: "snd (predict rt np srv request_json) = srv"
  by (simp add: predict_def split: sum.splits)

lemma serve_keeps_server: "snd (serve rt np srv reqs) = srv"
proof (induction reqs arbitrary: srv)
  case Nil
  then show ?case by simp
next
  case (Cons r reqs)
  obtain out where p: "predict rt np srv r = (out, srv)"
    using predict_keeps_server [of rt np srv r] by (cases "predict rt np srv r") simp
  obtain outs where "serve rt np srv reqs = (outs, srv)"
    using Cons [of srv] by (cases "serve rt np srv reqs") simp
  with p show ?case by simp
qed

lemma startup_loads:
  assumes "startup fs = Inr srv"
  shows "loaded srv = [''house_price_model.keras'', ''scaler.save''] \<and>
         load_model fs ''house_price_model.keras'' = Inr (model srv) \<and>
         joblib_load fs ''scaler.save'' = Inr (scaler srv)"
  using assms
  by (auto simp: startup_def load_trained_model_and_scaler_def Let_def split: sum.splits prod.splits)

lemma startup_example: "startup example_artifacts = Inr example_server"
  by (simp add: startup_def load_trained_model_and_scaler_def example_artifacts_def
      example_server_def)

lemma fst_preprocess_order:
  assumes p1: "\<And>xs. set (set_order rt1 xs) = set xs"
    and p2: "\<And>xs. set (set_order rt2 xs) = set xs"
    and o: "DataFrame_other rt1 = DataFrame_other rt2"
  shows "fst (preprocess_single_house rt1 h a sc) = fst (preprocess_single_house rt2 h a sc)"
proof -
  have fv: "frame_of_value rt1 v = frame_of_value rt2 v" for v
    by (cases v) (simp_all add: frame_of_value_def o)
  show ?thesis
  proof (cases "frame_of_value rt1 (pyvalues h ! a)")
    case (Inl e)
    with fv [of "pyvalues h ! a"] have "frame_of_value rt2 (pyvalues h ! a) = Inl e"
      by simp
    then show ?thesis
      by (simp add: preprocess_not_built [OF Inl] preprocess_not_built)
  next
    case (Inr df)
    with fv [of "pyvalues h ! a"] have Inr2: "frame_of_value rt2 (pyvalues h ! a) = Inr df"
      by simp
    have "set (missing_features rt1 (feature_names_in sc) df) =
          set (missing_features rt2 (feature_names_in sc) df)"
      by (simp add: set_missing_features [OF p1] set_missing_features [OF p2])
    then have "frame_getitem (zero_filled rt1 (feature_names_in sc) df) (map Name (feature_names_in sc)) =
               frame_getitem (zero_filled rt2 (feature_names_in sc) df) (map Name (feature_names_in sc))"
      unfolding zero_filled_def by (rule frame_getitem_fold_order)
    then show ?thesis
      by (simp add: preprocess_built [OF Inr] preprocess_built [OF Inr2] split: sum.splits)
  qed
qed

lemma other_order_perm:
  "set (set_order (example_runtime\<lparr>set_order := \<lambda>xs. xs\<rparr>) xs) = set xs"
  by simp

subsection \<open>The deployment of the example\<close>

lemma example_preprocess:
  "fst (preprocess_single_house example_runtime \<lparr>pyvalues = [JObj kvs], dataframes = []\<rparr> 0
          (scaler example_server)) =
   transform example_scaler (aligned_row [''area'', ''rooms''] kvs)"
proof -
  have "pyvalues \<lparr>pyvalues = [JObj kvs], dataframes = []\<rparr> ! 0 = JObj kvs" by simp
  from preprocess_dict [OF example_perm this, of "scaler example_server"]
  show ?thesis by (simp add: example_server_def example_scaler_def)
qed

lemma example_scaled:
  "transform example_scaler
     (aligned_row [''area'', ''rooms''] [(''area'', JInt 120), (''rooms'', JInt 3)]) =
   Inr [[6 / 5, 3 / 100]]"
  by (simp add: example_scaler_def aligned_row_def)


lemma example_scaled_zero:
  "transform example_scaler
     (aligned_row [''area'', ''rooms''] [(''area'', JInt 0), (''rooms'', JInt 0)]) =
   Inr [[0, 0]]"
  by (simp add: example_scaler_def aligned_row_def)

lemma example_scaled_empty:
  "transform example_scaler (aligned_row [''area'', ''rooms''] []) = Inr [[0, 0]]"
  by (simp add: example_scaler_def aligned_row_def)

lemma example_scaled_text:
  "transform example_scaler (aligned_row [''area'', ''rooms''] [(''area'', JStr ''big'')]) =
   Inl (PyException ''ValueError'' ''could not convert string to float'')"
  by (simp add: example_scaler_def aligned_row_def)

subsection \<open>One row, one cell per column\<close>






section \<open>The claims\<close>

text \<open>
  Claim C1. For every JSON object, the row \<^verbatim>\<open>preprocess_single_house\<close> hands to the
  scaler has exactly the columns \<^verbatim>\<open>scaler.feature_names_in_\<close>, in that order: an expected
  feature the object lacks is zero, a field that is not an expected feature is dropped.
  So the endpoint returns a price for a record that misses features, whenever the scaler
  and the model accept the aligned row.
\<close>

theorem preprocess_single_house_aligns:
  assumes perm: "\<And>xs. set (set_order rt xs) = set xs"
    and obj: "pyvalues h ! house_data = JObj kvs"
  shows "fst (preprocess_single_house rt h house_data (scaler srv)) =
           transform (scaler srv) (aligned_row (feature_names_in (scaler srv)) kvs) \<and>
         (\<forall>x y r rs.
            transform (scaler srv) (aligned_row (feature_names_in (scaler srv)) kvs) = Inr x \<and>
            model srv x = Inr ((y # r) # rs) \<longrightarrow>
            fst (predict rt np srv (Inr (JObj kvs))) =
              Returns \<lparr>status = 200, body = Price (py_round (expm1_f32 np y))\<rparr>)"
proof (intro conjI allI impI)
  show "fst (preprocess_single_house rt h house_data (scaler srv)) =
          transform (scaler srv) (aligned_row (feature_names_in (scaler srv)) kvs)"
    by (simp add: preprocess_dict [OF perm obj])
next
  fix x y r rs
  assume a: "transform (scaler srv) (aligned_row (feature_names_in (scaler srv)) kvs) = Inr x \<and>
             model srv x = Inr ((y # r) # rs)"
  have "pyvalues \<lparr>pyvalues = [JObj kvs], dataframes = []\<rparr> ! 0 = JObj kvs" by simp
  from preprocess_dict [OF perm this, of "scaler srv"] a
  have "fst (preprocess_single_house rt \<lparr>pyvalues = [JObj kvs], dataframes = []\<rparr> 0 (scaler srv)) = Inr x"
    by simp
  from try_body_success [OF this] a
  show "fst (predict rt np srv (Inr (JObj kvs))) =
          Returns \<lparr>status = 200, body = Price (py_round (expm1_f32 np y))\<rparr>"
    by (simp add: predict_def)
qed

theorem preprocess_single_house_aligns_witness:
  "(\<forall>xs. set (set_order example_runtime xs) = set xs) \<and>
   pyvalues \<lparr>pyvalues = [JObj [(''rooms'', JInt 3), (''garage'', JInt 1)]], dataframes = []\<rparr> ! 0 =
     JObj [(''rooms'', JInt 3), (''garage'', JInt 1)] \<and>
   fst (preprocess_single_house example_runtime
          \<lparr>pyvalues = [JObj [(''rooms'', JInt 3), (''garage'', JInt 1)]], dataframes = []\<rparr> 0
          (scaler example_server)) = Inr [[0, 3 / 100]] \<and>
   fst (predict example_runtime example_numpy example_server (Inr (JObj [(''rooms'', JInt 3), (''garage'', JInt 1)]))) =
     Returns \<lparr>status = 200, body = Price (py_round (expm1_f32 example_numpy (3 / 100)))\<rparr>"
proof -
  let ?kvs = "[(''rooms'', JInt 3), (''garage'', JInt 1)]"
  let ?h = "\<lparr>pyvalues = [JObj ?kvs], dataframes = []\<rparr>"
  have obj: "pyvalues ?h ! 0 = JObj ?kvs" by simp
  have t: "transform (scaler example_server)
             (aligned_row (feature_names_in (scaler example_server)) ?kvs) = Inr [[0, 3 / 100]]"
    by (simp add: example_server_def example_scaler_def aligned_row_def)
  have m: "model example_server [[0, 3 / 100]] = Inr ((3 / 100 # []) # [])"
    by (simp add: example_server_def example_model_def)
  note w = preprocess_single_house_aligns [OF example_perm obj, of example_server example_numpy]
  from w t have "fst (preprocess_single_house example_runtime ?h 0 (scaler example_server)) = Inr [[0, 3 / 100]]"
    by simp
  moreover from w t m have "fst (predict example_runtime example_numpy example_server (Inr (JObj ?kvs))) =
     Returns \<lparr>status = 200, body = Price (py_round (expm1_f32 example_numpy (3 / 100)))\<rparr>"
    by blast
  ultimately show ?thesis using example_perm by simp
qed




text \<open>
  Claim C3. The claim asks for a response with status 400 and an \<^verbatim>\<open>error\<close> field when
  the body is not JSON. \<^verbatim>\<open>request.json\<close> is evaluated before the \<^verbatim>\<open>try\<close>: the exception
  it raises leaves the handler, which returns no response of its own.
\<close>

theorem predict_request_json_raises:
  "predict rt np srv (Inl e) = (Raises e, srv)"
  by (simp add: predict_def)

text \<open>
  Claim C4. An exception raised by preprocessing, by the model or by taking the element
  \<^verbatim>\<open>[0][0]\<close> is caught: the handler returns status 400 with the exception's text in the
  \<^verbatim>\<open>error\<close> field. Once \<^verbatim>\<open>request.json\<close> has given a value, the handler always returns
  a response.
\<close>

theorem predict_catches:
  "(\<exists>resp. fst (predict rt np srv (Inr data)) = Returns resp) \<and>
   (\<forall>e. fst (preprocess_single_house rt \<lparr>pyvalues = [data], dataframes = []\<rparr> 0 (scaler srv)) = Inl e \<longrightarrow>
        fst (predict rt np srv (Inr data)) = Returns \<lparr>status = 400, body = Error (exc_str e)\<rparr>) \<and>
   (\<forall>x e. fst (preprocess_single_house rt \<lparr>pyvalues = [data], dataframes = []\<rparr> 0 (scaler srv)) = Inr x \<and>
          model srv x = Inl e \<longrightarrow>
        fst (predict rt np srv (Inr data)) = Returns \<lparr>status = 400, body = Error (exc_str e)\<rparr>) \<and>
   (\<forall>x ys. fst (preprocess_single_house rt \<lparr>pyvalues = [data], dataframes = []\<rparr> 0 (scaler srv)) = Inr x \<and>
          model srv x = Inr ys \<and> (ys = [] \<or> hd ys = []) \<longrightarrow>
        fst (predict rt np srv (Inr data)) =
          Returns \<lparr>status = 400,
                   body = Error ''index 0 is out of bounds for axis 0 with size 0''\<rparr>)"
proof (intro conjI allI impI)
  show "\<exists>resp. fst (predict rt np srv (Inr data)) = Returns resp"
    by (simp add: predict_def split: sum.splits)
next
  fix e
  assume "fst (preprocess_single_house rt \<lparr>pyvalues = [data], dataframes = []\<rparr> 0 (scaler srv)) = Inl e"
  from try_body_preprocess_raises [OF this]
  show "fst (predict rt np srv (Inr data)) = Returns \<lparr>status = 400, body = Error (exc_str e)\<rparr>"
    by (simp add: predict_def)
next
  fix x e
  assume "fst (preprocess_single_house rt \<lparr>pyvalues = [data], dataframes = []\<rparr> 0 (scaler srv)) = Inr x \<and>
          model srv x = Inl e"
  then have "try_body rt np srv data = Inl e"
    by (simp add: try_body_model_raises)
  then show "fst (predict rt np srv (Inr data)) = Returns \<lparr>status = 400, body = Error (exc_str e)\<rparr>"
    by (simp add: predict_def)
next
  fix x ys
  assume "fst (preprocess_single_house rt \<lparr>pyvalues = [data], dataframes = []\<rparr> 0 (scaler srv)) = Inr x \<and>
          model srv x = Inr ys \<and> (ys = [] \<or> hd ys = [])"
  then have p: "fst (preprocess_single_house rt \<lparr>pyvalues = [data], dataframes = []\<rparr> 0 (scaler srv)) = Inr x"
    and m: "model srv x = Inr ys" and e: "ys = [] \<or> hd ys = []"
    by simp_all
  have "try_body rt np srv data =
     Inl (PyException ''IndexError'' ''index 0 is out of bounds for axis 0 with size 0'')"
    by (rule try_body_index_raises [OF p m e])
  then show "fst (predict rt np srv (Inr data)) =
          Returns \<lparr>status = 400,
                   body = Error ''index 0 is out of bounds for axis 0 with size 0''\<rparr>"
    by (simp add: predict_def)
qed

theorem predict_catches_witness:
  "fst (preprocess_single_house example_runtime
          \<lparr>pyvalues = [JObj [(''area'', JStr ''big'')]], dataframes = []\<rparr> 0
          (scaler example_server)) =
     Inl (PyException ''ValueError'' ''could not convert string to float'') \<and>
   fst (predict example_runtime example_numpy example_server (Inr (JObj [(''area'', JStr ''big'')]))) =
     Returns \<lparr>status = 400, body = Error ''could not convert string to float''\<rparr> \<and>
   fst (predict example_runtime example_numpy
          (example_server\<lparr>model := \<lambda>x. Inl (PyException ''InvalidArgumentError'' ''Graph execution error'')\<rparr>)
          (Inr (JObj []))) =
     Returns \<lparr>status = 400, body = Error ''Graph execution error''\<rparr> \<and>
   fst (predict example_runtime example_numpy (example_server\<lparr>model := \<lambda>x. Inr []\<rparr>) (Inr (JObj []))) =
     Returns \<lparr>status = 400, body = Error ''index 0 is out of bounds for axis 0 with size 0''\<rparr>"
proof -
  let ?bad = "PyException ''InvalidArgumentError'' ''Graph execution error''"
  let ?srv2 = "example_server\<lparr>model := \<lambda>x. Inl ?bad\<rparr>"
  let ?srv3 = "example_server\<lparr>model := \<lambda>x. Inr []\<rparr>"
  have p1: "fst (preprocess_single_house example_runtime
          \<lparr>pyvalues = [JObj [(''area'', JStr ''big'')]], dataframes = []\<rparr> 0
          (scaler example_server)) =
     Inl (PyException ''ValueError'' ''could not convert string to float'')"
    by (simp add: example_preprocess example_scaled_text)
  have p0: "fst (preprocess_single_house example_runtime
          \<lparr>pyvalues = [JObj []], dataframes = []\<rparr> 0 (scaler example_server)) = Inr [[0, 0]]"
    by (simp add: example_preprocess example_scaled_empty)
  have p2: "fst (preprocess_single_house example_runtime
          \<lparr>pyvalues = [JObj []], dataframes = []\<rparr> 0 (scaler ?srv2)) = Inr [[0, 0]]"
    using p0 by simp
  have p3: "fst (preprocess_single_house example_runtime
          \<lparr>pyvalues = [JObj []], dataframes = []\<rparr> 0 (scaler ?srv3)) = Inr [[0, 0]]"
    using p0 by simp
  have m2: "model ?srv2 [[0, 0]] = Inl ?bad" by simp
  have m3: "model ?srv3 [[0, 0]] = Inr []" by simp
  from predict_catches [of example_runtime example_numpy example_server "JObj [(''area'', JStr ''big'')]"] p1
  have "fst (predict example_runtime example_numpy example_server (Inr (JObj [(''area'', JStr ''big'')]))) =
     Returns \<lparr>status = 400, body = Error ''could not convert string to float''\<rparr>"
    by simp
  moreover from predict_catches [of example_runtime example_numpy ?srv2 "JObj []"] p2 m2
  have "fst (predict example_runtime example_numpy ?srv2 (Inr (JObj []))) =
     Returns \<lparr>status = 400, body = Error ''Graph execution error''\<rparr>"
    by (metis py_exception.sel(2))
  moreover from predict_catches [of example_runtime example_numpy ?srv3 "JObj []"] p3 m3
  have "fst (predict example_runtime example_numpy ?srv3 (Inr (JObj []))) =
     Returns \<lparr>status = 400, body = Error ''index 0 is out of bounds for axis 0 with size 0''\<rparr>"
    by blast
  ultimately show ?thesis using p1 by simp
qed

text \<open>
  Claim C5, as the specification states it, asks for a positive price for every
  well-formed record. The code puts no bound on the price: for the record with area 0
  and 0 rooms the model of the example answers 0, \<^verbatim>\<open>np.expm1\<close> of 0 is 0, and the
  price is 0.
\<close>

theorem predict_zero_price:
  "fst (predict example_runtime example_numpy example_server
          (Inr (JObj [(''area'', JInt 0), (''rooms'', JInt 0)]))) =
     Returns \<lparr>status = 200, body = Price (Finite 0)\<rparr> \<and>
   exceeds (Finite 0) 0 = False"
proof -
  have p: "fst (preprocess_single_house example_runtime
          \<lparr>pyvalues = [JObj [(''area'', JInt 0), (''rooms'', JInt 0)]], dataframes = []\<rparr> 0
          (scaler example_server)) = Inr [[0, 0]]"
    by (simp add: example_preprocess example_scaled_zero)
  have m: "model example_server [[0, 0]] = Inr ((0 # []) # [])"
    by (simp add: example_server_def example_model_def)
  have "py_round (expm1_f32 example_numpy 0) = Finite 0"
    by (simp add: expm1_f32_zero py_round2_def)
  with try_body_success [OF p m, of example_numpy] show ?thesis
    by (simp add: predict_def)
qed

text \<open>
  Claim C5, amended. For a record on which the scaler and the model succeed, the endpoint
  returns status 200 and the price \<^verbatim>\<open>round(e, 2)\<close>, where \<open>e\<close> is \<^verbatim>\<open>np.expm1\<close> of the
  element \<^verbatim>\<open>[0][0]\<close> of the model's output. The price is positive exactly when \<open>e\<close> is
  infinite or more than half a cent.
\<close>

theorem predict_price_positive_iff:
  assumes "fst (preprocess_single_house rt \<lparr>pyvalues = [JObj kvs], dataframes = []\<rparr> 0 (scaler srv)) = Inr x"
    and "model srv x = Inr ((y # r) # rs)"
  shows "fst (predict rt np srv (Inr (JObj kvs))) =
           Returns \<lparr>status = 200, body = Price (py_round (expm1_f32 np y))\<rparr> \<and>
         (exceeds (py_round (expm1_f32 np y)) 0 \<longleftrightarrow> exceeds (expm1_f32 np y) (1 / 200))"
  using try_body_success [OF assms]
  by (simp add: predict_def py_round_exceeds)

theorem predict_price_positive_iff_witness:
  "fst (preprocess_single_house example_runtime
          \<lparr>pyvalues = [JObj [(''area'', JInt 120), (''rooms'', JInt 3)]], dataframes = []\<rparr> 0
          (scaler example_server)) = Inr [[6 / 5, 3 / 100]] \<and>
   model example_server [[6 / 5, 3 / 100]] = Inr [[123 / 100]] \<and>
   fst (predict example_runtime example_numpy example_server
          (Inr (JObj [(''area'', JInt 120), (''rooms'', JInt 3)]))) =
     Returns \<lparr>status = 200, body = Price (py_round (expm1_f32 example_numpy (123 / 100)))\<rparr> \<and>
   exceeds (expm1_f32 example_numpy (123 / 100)) (1 / 200) \<and>
   exceeds (py_round (expm1_f32 example_numpy (123 / 100))) 0 \<and>
   fst (preprocess_single_house example_runtime
          \<lparr>pyvalues = [JObj []], dataframes = []\<rparr> 0 (scaler example_server)) = Inr [[0, 0]] \<and>
   model example_server [[0, 0]] = Inr [[0]] \<and>
   fst (predict example_runtime example_numpy example_server (Inr (JObj []))) =
     Returns \<lparr>status = 200, body = Price (Finite 0)\<rparr> \<and>
   exceeds (py_round (Finite 0)) 0 = exceeds (Finite 0) (1 / 200)"
proof -
  have p: "fst (preprocess_single_house example_runtime
          \<lparr>pyvalues = [JObj [(''area'', JInt 120), (''rooms'', JInt 3)]], dataframes = []\<rparr> 0
          (scaler example_server)) = Inr [[6 / 5, 3 / 100]]"
    by (simp add: example_preprocess example_scaled)
  have m: "model example_server [[6 / 5, 3 / 100]] = Inr ((123 / 100 # []) # [])"
    by (simp add: example_server_def example_model_def)
  have "1 + (123 / 100 :: real) \<le> exp (123 / 100)"
    by (rule exp_ge_add_one_self)
  then have "1 / 200 < exp (123 / 100 :: real) - 1" by linarith
  moreover have "expm1_f32 example_numpy (123 / 100) = Finite (exp (123 / 100) - 1)"
    by (simp add: expm1_f32_in_range example_numpy_def)
  ultimately have e: "exceeds (expm1_f32 example_numpy (123 / 100)) (1 / 200)"
    by simp
  have p0: "fst (preprocess_single_house example_runtime
          \<lparr>pyvalues = [JObj []], dataframes = []\<rparr> 0 (scaler example_server)) = Inr [[0, 0]]"
    by (simp add: example_preprocess example_scaled_empty)
  have m0: "model example_server [[0, 0]] = Inr ((0 # []) # [])"
    by (simp add: example_server_def example_model_def)
  have z: "py_round (expm1_f32 example_numpy 0) = Finite 0"
    by (simp add: expm1_f32_zero py_round2_def)
  from predict_price_positive_iff [OF p m, of example_numpy]
    predict_price_positive_iff [OF p0 m0, of example_numpy] p m p0 m0 e z
  show ?thesis by (simp add: expm1_f32_zero)
qed

text \<open>
  Claim C6. The handler returns \<^verbatim>\<open>{"price": p}\<close> with status 200 or \<^verbatim>\<open>{"error": m}\<close>
  with status 400, except for a request on which \<^verbatim>\<open>request.json\<close> raises: there the
  exception leaves the handler and the response is the framework's, not one of the two.
\<close>

theorem predict_outcome_shapes:
  "(\<exists>e. request_json = Inl e \<and> fst (predict rt np srv request_json) = Raises e) \<or>
   (\<exists>p. fst (predict rt np srv request_json) = Returns \<lparr>status = 200, body = Price p\<rparr>) \<or>
   (\<exists>m. fst (predict rt np srv request_json) = Returns \<lparr>status = 400, body = Error m\<rparr>)"
proof (cases request_json)
  case (Inl e)
  then show ?thesis by (simp add: predict_def)
next
  case (Inr data)
  from try_body_cases [of rt np srv data] show ?thesis
    by (auto simp: predict_def Inr)
qed

text \<open>
  Claim C7. The model and the scaler are loaded once, when the process starts: each of
  the two files is read once. No call of the handler, and no sequence of calls, changes
  the globals or reads a file again.
\<close>

theorem serve_keeps_model_and_scaler:
  assumes "startup fs = Inr srv"
  shows "snd (predict rt np srv request_json) = srv \<and>
         snd (serve rt np srv reqs) = srv \<and>
         loaded srv = [''house_price_model.keras'', ''scaler.save''] \<and>
         load_model fs ''house_price_model.keras'' = Inr (model srv) \<and>
         joblib_load fs ''scaler.save'' = Inr (scaler srv)"
  using startup_loads [OF assms] by (simp add: predict_keeps_server serve_keeps_server)

theorem serve_keeps_model_and_scaler_witness:
  "startup example_artifacts = Inr example_server \<and>
   snd (serve example_runtime example_numpy example_server
          [Inr (JObj [(''area'', JInt 120)]), Inl (PyException ''BadRequest'' ''400 Bad Request''),
           Inr (JObj [(''rooms'', JStr ''three'')])]) = example_server \<and>
   loaded example_server = [''house_price_model.keras'', ''scaler.save'']"
  using serve_keeps_model_and_scaler [OF startup_example, of example_runtime example_numpy]
    startup_example by blast

text \<open>
  Claim C8. \<^verbatim>\<open>preprocess_single_house\<close> does not change its argument: the values the
  JSON parser built, and every frame that existed before the call, are the same after
  it. What the call changes is the frame it has built itself.
\<close>

theorem preprocess_single_house_keeps_argument:
  "pyvalues (snd (preprocess_single_house rt h house_data sc)) = pyvalues h \<and>
   take (length (dataframes h)) (dataframes (snd (preprocess_single_house rt h house_data sc))) =
     dataframes h"
proof (cases "frame_of_value rt (pyvalues h ! house_data)")
  case (Inl e)
  then show ?thesis by (simp add: preprocess_not_built)
next
  case (Inr df)
  then show ?thesis by (simp add: preprocess_built split: sum.splits)
qed

text \<open>
  Claim C9. The endpoint is deterministic: two runs that differ in the order in which
  the loop visits the set of missing features give the same outcome for the same request,
  model and scaler.
\<close>

theorem predict_deterministic:
  assumes "\<And>xs. set (set_order rt1 xs) = set xs"
    and "\<And>xs. set (set_order rt2 xs) = set xs"
    and "DataFrame_other rt1 = DataFrame_other rt2"
  shows "predict rt1 np srv request_json = predict rt2 np srv request_json"
proof (cases request_json)
  case (Inl e)
  then show ?thesis by (simp add: predict_def)
next
  case (Inr data)
  have "try_body rt1 np srv data = try_body rt2 np srv data"
    unfolding try_body_def by (simp add: fst_preprocess_order [OF assms])
  with Inr show ?thesis by (simp add: predict_def)
qed

theorem predict_deterministic_witness:
  "(\<forall>xs. set (set_order example_runtime xs) = set xs) \<and>
   (\<forall>xs. set (set_order (example_runtime\<lparr>set_order := \<lambda>xs. xs\<rparr>) xs) = set xs) \<and>
   DataFrame_other example_runtime = DataFrame_other (example_runtime\<lparr>set_order := \<lambda>xs. xs\<rparr>) \<and>
   predict example_runtime example_numpy example_server (Inr (JObj [(''garage'', JInt 1)])) =
     predict (example_runtime\<lparr>set_order := \<lambda>xs. xs\<rparr>) example_numpy example_server
       (Inr (JObj [(''garage'', JInt 1)]))"
proof -
  have o: "DataFrame_other example_runtime =
           DataFrame_other (example_runtime\<lparr>set_order := \<lambda>xs. xs\<rparr>)"
    by simp
  from predict_deterministic [OF example_perm other_order_perm o, of example_numpy example_server]
  show ?thesis using example_perm o by simp
qed



end
